theory Spec2Isabelle
  imports Main "HOL-Library.Word" "HOL-Library.Sublist"
begin

unbundle bit_operations_syntax

section \<open>Data model of the cloud lock service (src/main.py)\<close>

text \<open>
  The service keeps two module-level variables: the dictionary \<open>commands\<close>, which maps a
  device id to a dictionary with the keys \<open>action\<close>, \<open>request_id\<close>, \<open>expires_at\<close> and
  \<open>created_at\<close>, and the list \<open>events\<close>. Every stored command dictionary is written with
  all four keys, so it is a record; the values of \<open>action\<close> are the Python strings
  \<open>"unlock"\<close> and \<open>"none"\<close> and stay strings here. Times are the integers \<open>now()\<close> returns.
\<close>

record command =
  action :: string
  request_id :: string
  expires_at :: int
  created_at :: int

text \<open>
  The four shapes of event dictionary the handlers append. The arguments are, in the order
  of the keys in the source: \<open>ts\<close>, \<open>device_id\<close>, then \<open>request_id\<close>,
  \<open>current_request_id\<close> and \<open>status\<close> where the dictionary has them.
\<close>

datatype event =
    UnlockIssued int string string
  | CommandExpired int string
  | AckMismatch int string string string string
  | Ack int string string string

fun event_type :: "event \<Rightarrow> string" where
  "event_type (UnlockIssued _ _ _) = ''unlock_issued''"
| "event_type (CommandExpired _ _) = ''command_expired''"
| "event_type (AckMismatch _ _ _ _ _) = ''ack_mismatch''"
| "event_type (Ack _ _ _ _) = ''ack''"

record state =
  commands :: "string \<rightharpoonup> command"
  events :: "event list"

definition init :: state where
  "init = \<lparr>commands = Map.empty, events = []\<rparr>"

text \<open>What a handler raises: \<open>HTTPException(status_code, detail)\<close>, or the \<open>KeyError\<close> of
  a dictionary subscript.\<close>

datatype error = HTTPException nat string | KeyError string

definition ADMIN_API_KEY :: string where
  "ADMIN_API_KEY = ''CHANGE_ME_ADMIN_KEY_12345''"

definition DEVICE_KEYS :: "string \<rightharpoonup> string" where
  "DEVICE_KEYS = [''lock1'' \<mapsto> ''CHANGE_ME_DEVICE_KEY_LOCK1'']"

definition none_command :: command where
  "none_command = \<lparr>action = ''none'', request_id = '''', expires_at = 0, created_at = 0\<rparr>"

section \<open>Library functions the handlers call\<close>

text \<open>
  \<open>secrets.token_hex(8)\<close> draws eight random bytes and writes them as sixteen lower-case
  hexadecimal digits, first byte first. The eight bytes are an input of the model, as one
  64-bit word whose most significant byte is the first byte drawn.
\<close>

definition hexdigit :: "nat \<Rightarrow> char" where
  "hexdigit n = ''0123456789abcdef'' ! (n mod 16)"

definition token_hex :: "64 word \<Rightarrow> string" where
  "token_hex w = map (\<lambda>i. hexdigit (unat (drop_bit (4 * (15 - i)) w AND 15))) [0..<16]"

text \<open>\<open>payload.ttl_seconds or 10\<close>: Python's \<open>or\<close> takes the right operand when the left one
  is \<open>None\<close> or \<open>0\<close>.\<close>

definition ttl_or :: "int option \<Rightarrow> int \<Rightarrow> int" where
  "ttl_or v d = (case v of None \<Rightarrow> d | Some n \<Rightarrow> if n = 0 then d else n)"

text \<open>\<open>xs[-n:]\<close> for a positive \<open>n\<close>: the whole list when it has at most \<open>n\<close> elements, its
  last \<open>n\<close> elements otherwise.\<close>

definition slice_last :: "nat \<Rightarrow> 'a list \<Rightarrow> 'a list" where
  "slice_last n xs = drop (length xs - n) xs"

section \<open>The handlers\<close>

text \<open>
  Each handler takes the request's fields, then the readings of the environment in the
  order the source takes them (the random bytes of \<open>secrets.token_hex\<close>, one integer per
  call of \<open>now()\<close>), then the state, and returns what the source returns or raises
  together with the state it leaves behind.
\<close>

definition ensure_device :: "string \<Rightarrow> state \<Rightarrow> error + state" where
  "ensure_device device_id s =
     (if DEVICE_KEYS device_id = None then Inl (HTTPException 404 ''Unknown device_id'')
      else if commands s device_id = None
        then Inr (s\<lparr>commands := (commands s)(device_id \<mapsto> none_command)\<rparr>)
      else Inr s)"

record unlock_response =
  r_ok :: bool
  r_device_id :: string
  r_action :: string
  r_request_id :: string
  r_expires_at :: int

definition api_unlock ::
  "string \<Rightarrow> int option \<Rightarrow> string option \<Rightarrow> 64 word \<Rightarrow> int \<Rightarrow> int \<Rightarrow> int \<Rightarrow> state
     \<Rightarrow> (error + unlock_response) \<times> state" where
  "api_unlock device_id ttl_seconds x_api_key rnd t_exp t_created t_event s =
     (if x_api_key \<noteq> Some ADMIN_API_KEY
        then (Inl (HTTPException 401 ''Invalid admin API key''), s)
      else case ensure_device device_id s of
        Inl e \<Rightarrow> (Inl e, s)
      | Inr s1 \<Rightarrow>
          let req_id = token_hex rnd;
              ttl = max 3 (min (ttl_or ttl_seconds 10) 60);
              exp = t_exp + ttl;
              s2 = s1\<lparr>commands := (commands s1)(device_id \<mapsto>
                     \<lparr>action = ''unlock'', request_id = req_id,
                      expires_at = exp, created_at = t_created\<rparr>)\<rparr>;
              s3 = s2\<lparr>events := events s2 @ [UnlockIssued t_event device_id req_id]\<rparr>;
              s4 = (if length (events s3) > 200
                    then s3\<lparr>events := drop 50 (events s3)\<rparr> else s3)
          in (Inr \<lparr>r_ok = True, r_device_id = device_id, r_action = ''unlock'',
                   r_request_id = req_id, r_expires_at = exp\<rparr>, s4))"

text \<open>\<open>api_command\<close> returns either the dictionary \<open>{"action": "none"}\<close> or the stored
  command dictionary itself.\<close>

datatype command_response = ActionOnly string | Stored command

definition api_command ::
  "string \<Rightarrow> int \<Rightarrow> int \<Rightarrow> state \<Rightarrow> (error + command_response) \<times> state" where
  "api_command device_id t_check t_event s =
     (case ensure_device device_id s of
        Inl e \<Rightarrow> (Inl e, s)
      | Inr s1 \<Rightarrow>
          let cmd = (case commands s1 device_id of None \<Rightarrow> none_command | Some c \<Rightarrow> c)
          in if action cmd \<noteq> ''none'' \<and> t_check > expires_at cmd
             then (Inr (ActionOnly ''none''),
                   s1\<lparr>commands := (commands s1)(device_id \<mapsto> none_command),
                      events := events s1 @ [CommandExpired t_event device_id]\<rparr>)
             else (Inr (Stored cmd), s1))"

text \<open>\<open>api_ack\<close> returns \<open>{"ok": False, "detail": "request_id mismatch"}\<close> or
  \<open>{"ok": True}\<close>.\<close>

datatype ack_response = AckResponse bool "string option"

definition api_ack ::
  "string \<Rightarrow> string \<Rightarrow> string \<Rightarrow> string option \<Rightarrow> int \<Rightarrow> state
     \<Rightarrow> (error + ack_response) \<times> state" where
  "api_ack device_id req_id status x_device_key t_event s =
     (case ensure_device device_id s of
        Inl e \<Rightarrow> (Inl e, s)
      | Inr s1 \<Rightarrow>
         (case DEVICE_KEYS device_id of
            None \<Rightarrow> (Inl (KeyError device_id), s1)
          | Some expected \<Rightarrow>
              if x_device_key \<noteq> Some expected
                then (Inl (HTTPException 401 ''Invalid device key''), s1)
              else
                let current = commands s1 device_id in
                if map_option request_id current \<noteq> Some req_id
                  then (Inr (AckResponse False (Some ''request_id mismatch'')),
                        s1\<lparr>events := events s1 @
                          [AckMismatch t_event device_id req_id
                             (case current of None \<Rightarrow> '''' | Some c \<Rightarrow> request_id c)
                             status]\<rparr>)
                else (Inr (AckResponse True None),
                      s1\<lparr>commands := (commands s1)(device_id \<mapsto> none_command),
                         events := events s1 @ [Ack t_event device_id req_id status]\<rparr>)))"

definition api_events :: "string option \<Rightarrow> state \<Rightarrow> error + event list" where
  "api_events x_api_key s =
     (if x_api_key \<noteq> Some ADMIN_API_KEY
        then Inl (HTTPException 401 ''Invalid admin API key'')
      else Inr (slice_last 100 (events s)))"

section \<open>Sequences of requests\<close>

text \<open>A request to one of the four routes, with the environment readings its handler
  takes. The server handles requests one after the other on the shared state.\<close>

datatype request =
    Unlock string "int option" "string option" "64 word" int int int
  | Command string int int
  | AckReq string string string "string option" int
  | Events "string option"

fun step :: "state \<Rightarrow> request \<Rightarrow> state" where
  "step s (Unlock d ttl k rnd t1 t2 t3) = snd (api_unlock d ttl k rnd t1 t2 t3 s)"
| "step s (Command d t1 t2) = snd (api_command d t1 t2 s)"
| "step s (AckReq d r st k t) = snd (api_ack d r st k t s)"
| "step s (Events k) = s"

definition run :: "state \<Rightarrow> request list \<Rightarrow> state" where
  "run s rs = foldl step s rs"

text \<open>The slot of a device as the handlers read it: the stored command, or the NONE
  command when nothing is stored yet (\<open>ensure_device\<close> stores exactly that one on the
  first request for a known device).\<close>

definition slot :: "state \<Rightarrow> string \<Rightarrow> command" where
  "slot s d = (case commands s d of None \<Rightarrow> none_command | Some c \<Rightarrow> c)"

text \<open>The invariant of a stored command: its \<open>request_id\<close> is non-empty exactly when
  its \<open>action\<close> is not \<open>"none"\<close>; and of the store: every stored command has it.\<close>

definition slot_inv :: "command \<Rightarrow> bool" where
  "slot_inv c = ((request_id c \<noteq> []) = (action c \<noteq> ''none''))"

definition store_inv :: "state \<Rightarrow> bool" where
  "store_inv s = (\<forall>d c. commands s d = Some c \<longrightarrow> slot_inv c)"

section \<open>Basic facts\<close>

lemma length_token_hex: "length (token_hex w) = 16"
  by (simp add: token_hex_def)

lemma token_hex_nonempty: "token_hex w \<noteq> []"
  using length_token_hex [of w] by auto

lemma run_Nil: "run s [] = s"
  by (simp add: run_def)

lemma run_Cons: "run s (r # rs) = run (step s r) rs"
  by (simp add: run_def)

subsection \<open>What each handler does, case by case\<close>

lemma ensure_device_known:
  assumes "DEVICE_KEYS d = Some key"
  shows "ensure_device d s = Inr (s\<lparr>commands := (commands s)(d \<mapsto> slot s d)\<rparr>)"
proof (cases "commands s d")
  case None
  with assms show ?thesis by (simp add: ensure_device_def slot_def)
next
  case (Some c)
  then have "(commands s)(d \<mapsto> c) = commands s" by (simp add: fun_upd_idem)
  with Some assms show ?thesis by (simp add: ensure_device_def slot_def)
qed

lemma ensure_device_unknown:
  "DEVICE_KEYS d = None \<Longrightarrow> ensure_device d s = Inl (HTTPException 404 ''Unknown device_id'')"
  by (simp add: ensure_device_def)

lemma api_unlock_unauthorized:
  "k \<noteq> Some ADMIN_API_KEY \<Longrightarrow>
     api_unlock d ttl k rnd t1 t2 t3 s = (Inl (HTTPException 401 ''Invalid admin API key''), s)"
  by (simp add: api_unlock_def)

lemma api_unlock_unknown:
  "DEVICE_KEYS d = None \<Longrightarrow>
     api_unlock d ttl (Some ADMIN_API_KEY) rnd t1 t2 t3 s =
       (Inl (HTTPException 404 ''Unknown device_id''), s)"
  by (simp add: api_unlock_def ensure_device_unknown)

lemma api_unlock_known:
  assumes "DEVICE_KEYS d = Some key"
  shows "api_unlock d ttl (Some ADMIN_API_KEY) rnd t1 t2 t3 s =
    (Inr \<lparr>r_ok = True, r_device_id = d, r_action = ''unlock'', r_request_id = token_hex rnd,
          r_expires_at = t1 + max 3 (min (ttl_or ttl 10) 60)\<rparr>,
     s\<lparr>commands := (commands s)(d \<mapsto>
          \<lparr>action = ''unlock'', request_id = token_hex rnd,
           expires_at = t1 + max 3 (min (ttl_or ttl 10) 60), created_at = t2\<rparr>),
       events := (if length (events s) \<ge> 200
                  then drop 50 (events s @ [UnlockIssued t3 d (token_hex rnd)])
                  else events s @ [UnlockIssued t3 d (token_hex rnd)])\<rparr>)"
  by (simp add: api_unlock_def ensure_device_known [OF assms] Let_def)

lemma api_command_unknown:
  "DEVICE_KEYS d = None \<Longrightarrow>
     api_command d t1 t2 s = (Inl (HTTPException 404 ''Unknown device_id''), s)"
  by (simp add: api_command_def ensure_device_unknown)

lemma api_command_expired:
  assumes "DEVICE_KEYS d = Some key" and "action (slot s d) \<noteq> ''none''"
    and "expires_at (slot s d) < t1"
  shows "api_command d t1 t2 s =
    (Inr (ActionOnly ''none''),
     s\<lparr>commands := (commands s)(d \<mapsto> none_command),
       events := events s @ [CommandExpired t2 d]\<rparr>)"
  using assms(2,3) by (simp add: api_command_def ensure_device_known [OF assms(1)] Let_def)

lemma api_command_kept:
  assumes "DEVICE_KEYS d = Some key"
    and "action (slot s d) = ''none'' \<or> t1 \<le> expires_at (slot s d)"
  shows "api_command d t1 t2 s =
    (Inr (Stored (slot s d)), s\<lparr>commands := (commands s)(d \<mapsto> slot s d)\<rparr>)"
  using assms(2)
  by (auto simp add: api_command_def ensure_device_known [OF assms(1)] Let_def)

lemma api_ack_unknown:
  "DEVICE_KEYS d = None \<Longrightarrow>
     api_ack d rid st k t s = (Inl (HTTPException 404 ''Unknown device_id''), s)"
  by (simp add: api_ack_def ensure_device_unknown)

lemma api_ack_match:
  assumes "DEVICE_KEYS d = Some key" and "request_id (slot s d) = rid"
  shows "api_ack d rid st (Some key) t s =
    (Inr (AckResponse True None),
     s\<lparr>commands := (commands s)(d \<mapsto> none_command),
       events := events s @ [Ack t d rid st]\<rparr>)"
  using assms by (simp add: api_ack_def ensure_device_known [OF assms(1)] Let_def)

lemma api_ack_mismatch:
  assumes "DEVICE_KEYS d = Some key" and "request_id (slot s d) \<noteq> rid"
  shows "api_ack d rid st (Some key) t s =
    (Inr (AckResponse False (Some ''request_id mismatch'')),
     s\<lparr>commands := (commands s)(d \<mapsto> slot s d),
       events := events s @ [AckMismatch t d rid (request_id (slot s d)) st]\<rparr>)"
  using assms by (simp add: api_ack_def ensure_device_known [OF assms(1)] Let_def)

lemma slot_refresh: "slot (s\<lparr>commands := (commands s)(d \<mapsto> slot s d), events := es\<rparr>) d' = slot s d'"
  by (simp add: slot_def)

lemma stored_refresh:
  "commands s d = Some c \<Longrightarrow> s\<lparr>commands := (commands s)(d \<mapsto> slot s d)\<rparr> = s"
  by (simp add: slot_def fun_upd_idem)

subsection \<open>The invariant of the store\<close>

lemma slot_inv_none: "slot_inv none_command"
  by (simp add: slot_inv_def none_command_def)

lemma slot_inv_unlock:
  "slot_inv \<lparr>action = ''unlock'', request_id = token_hex w, expires_at = e, created_at = c\<rparr>"
  by (simp add: slot_inv_def token_hex_nonempty)

lemma store_inv_init: "store_inv init"
  by (simp add: store_inv_def init_def)

lemma store_inv_update:
  "store_inv s \<Longrightarrow> slot_inv c \<Longrightarrow> store_inv (s\<lparr>commands := (commands s)(d \<mapsto> c), events := es\<rparr>)"
  by (simp add: store_inv_def)

lemma store_inv_events: "store_inv s \<Longrightarrow> store_inv (s\<lparr>events := es\<rparr>)"
  by (simp add: store_inv_def)

lemma store_inv_ensure_device:
  assumes "store_inv s" and "ensure_device d s = Inr s1"
  shows "store_inv s1"
proof (cases "commands s d")
  case None
  with assms(2) have "s1 = s\<lparr>commands := (commands s)(d \<mapsto> none_command)\<rparr>"
    by (auto simp: ensure_device_def split: if_splits)
  with assms(1) show ?thesis by (simp add: store_inv_def slot_inv_none)
next
  case (Some c)
  with assms(2) have "s1 = s" by (auto simp: ensure_device_def split: if_splits)
  with assms(1) show ?thesis by simp
qed

lemma store_inv_api_unlock:
  assumes "store_inv s"
  shows "store_inv (snd (api_unlock d ttl k rnd t1 t2 t3 s))"
proof (cases "k = Some ADMIN_API_KEY")
  case False
  with assms show ?thesis by (simp add: api_unlock_unauthorized)
next
  case True
  show ?thesis
  proof (cases "DEVICE_KEYS d")
    case None
    with True assms show ?thesis by (simp add: api_unlock_unknown)
  next
    case (Some key)
    show ?thesis
      unfolding True api_unlock_known [OF Some] snd_conv
      by (rule store_inv_update [OF assms slot_inv_unlock])
  qed
qed

lemma store_inv_api_command:
  assumes "store_inv s"
  shows "store_inv (snd (api_command d t1 t2 s))"
proof (cases "ensure_device d s")
  case (Inl e)
  with assms show ?thesis by (simp add: api_command_def)
next
  case (Inr s1)
  have s1: "store_inv s1" by (rule store_inv_ensure_device [OF assms Inr])
  have "store_inv (s1\<lparr>commands := (commands s1)(d \<mapsto> none_command), events := es\<rparr>)" for es
    by (rule store_inv_update [OF s1 slot_inv_none])
  with s1 Inr show ?thesis by (simp add: api_command_def Let_def)
qed

lemma store_inv_api_ack:
  assumes "store_inv s"
  shows "store_inv (snd (api_ack d rid st k t s))"
proof (cases "ensure_device d s")
  case (Inl e)
  with assms show ?thesis by (simp add: api_ack_def)
next
  case (Inr s1)
  have s1: "store_inv s1" by (rule store_inv_ensure_device [OF assms Inr])
  have a: "store_inv (s1\<lparr>commands := (commands s1)(d \<mapsto> none_command), events := es\<rparr>)" for es
    by (rule store_inv_update [OF s1 slot_inv_none])
  have b: "store_inv (s1\<lparr>events := es\<rparr>)" for es
    by (rule store_inv_events [OF s1])
  from s1 a b Inr show ?thesis
    by (simp add: api_ack_def Let_def split: option.split)
qed

lemma store_inv_step: "store_inv s \<Longrightarrow> store_inv (step s r)"
  by (cases r) (simp_all add: store_inv_api_unlock store_inv_api_command store_inv_api_ack)

lemma store_inv_run: "store_inv s \<Longrightarrow> store_inv (run s rs)"
  by (induction rs arbitrary: s) (simp_all add: run_Nil run_Cons store_inv_step)

subsection \<open>The length of the event log\<close>

lemma api_ack_appends_one:
  assumes "DEVICE_KEYS d = Some key"
  shows "length (events (snd (api_ack d rid st (Some key) t s))) = Suc (length (events s))"
proof (cases "request_id (slot s d) = rid")
  case True
  then show ?thesis by (simp add: api_ack_match [OF assms])
next
  case False
  then show ?thesis by (simp add: api_ack_mismatch [OF assms])
qed

lemma acks_append:
  assumes "DEVICE_KEYS d = Some key"
  shows "length (events (run s (replicate n (AckReq d rid st (Some key) t))))
           = length (events s) + n"
proof (induction n arbitrary: s)
  case 0
  show ?case by (simp add: run_Nil)
next
  case (Suc n)
  show ?case by (simp add: run_Cons Suc.IH api_ack_appends_one [OF assms])
qed

lemma api_unlock_bounded:
  assumes "length (events s) \<le> 200"
  shows "length (events (snd (api_unlock d ttl k rnd t1 t2 t3 s))) \<le> 200"
proof (cases "k = Some ADMIN_API_KEY")
  case False
  with assms show ?thesis by (simp add: api_unlock_unauthorized)
next
  case True
  show ?thesis
  proof (cases "DEVICE_KEYS d")
    case None
    with True assms show ?thesis by (simp add: api_unlock_unknown)
  next
    case (Some key)
    with True assms show ?thesis by (simp add: api_unlock_known [OF Some])
  qed
qed

section \<open>Acknowledging a command\<close>

text \<open>
  C1. An acknowledge by a known device with its own key whose \<open>request_id\<close> equals the
  stored one resets the slot to the NONE command (empty \<open>request_id\<close>, \<open>expires_at = 0\<close>),
  appends one \<open>ack\<close> event with the caller's status unchanged and returns \<open>ok = True\<close>.
  When that \<open>request_id\<close> is not the empty string, a second acknowledge with the same
  \<open>request_id\<close> right afterwards returns \<open>ok = False\<close> and appends an \<open>ack_mismatch\<close> event.
\<close>

theorem ack_match_then_mismatch:
  assumes "DEVICE_KEYS d = Some key" and "request_id (slot s d) = rid"
  shows "api_ack d rid st (Some key) t s =
           (Inr (AckResponse True None),
            s\<lparr>commands := (commands s)(d \<mapsto> none_command),
              events := events s @ [Ack t d rid st]\<rparr>)
         \<and> (rid \<noteq> [] \<longrightarrow>
              api_ack d rid st' (Some key) t' (snd (api_ack d rid st (Some key) t s)) =
                (Inr (AckResponse False (Some ''request_id mismatch'')),
                 s\<lparr>commands := (commands s)(d \<mapsto> none_command),
                   events := events s @ [Ack t d rid st, AckMismatch t' d rid [] st']\<rparr>))"
proof (intro conjI impI)
  show first: "api_ack d rid st (Some key) t s =
      (Inr (AckResponse True None),
       s\<lparr>commands := (commands s)(d \<mapsto> none_command), events := events s @ [Ack t d rid st]\<rparr>)"
    by (rule api_ack_match [OF assms])
  assume "rid \<noteq> []"
  then have "request_id (slot (snd (api_ack d rid st (Some key) t s)) d) \<noteq> rid"
    by (simp add: first slot_def none_command_def)
  from api_ack_mismatch [OF assms(1) this, of st' t']
  show "api_ack d rid st' (Some key) t' (snd (api_ack d rid st (Some key) t s)) =
      (Inr (AckResponse False (Some ''request_id mismatch'')),
       s\<lparr>commands := (commands s)(d \<mapsto> none_command),
         events := events s @ [Ack t d rid st, AckMismatch t' d rid [] st']\<rparr>)"
    by (simp add: first slot_def none_command_def)
qed

theorem ack_match_then_mismatch_witness:
  "DEVICE_KEYS ''lock1'' = Some ''CHANGE_ME_DEVICE_KEY_LOCK1''
   \<and> request_id (slot \<lparr>commands = [''lock1'' \<mapsto>
        \<lparr>action = ''unlock'', request_id = ''a1b2'', expires_at = 10, created_at = 0\<rparr>],
        events = []\<rparr> ''lock1'') = ''a1b2''
   \<and> ''a1b2'' \<noteq> []
   \<and> api_ack ''lock1'' ''a1b2'' ''done'' (Some ''CHANGE_ME_DEVICE_KEY_LOCK1'') 7
        \<lparr>commands = [''lock1'' \<mapsto>
          \<lparr>action = ''unlock'', request_id = ''a1b2'', expires_at = 10, created_at = 0\<rparr>],
          events = []\<rparr>
       = (Inr (AckResponse True None),
          \<lparr>commands = [''lock1'' \<mapsto> none_command],
           events = [Ack 7 ''lock1'' ''a1b2'' ''done'']\<rparr>)
   \<and> api_ack ''lock1'' ''a1b2'' ''failed'' (Some ''CHANGE_ME_DEVICE_KEY_LOCK1'') 8
        (snd (api_ack ''lock1'' ''a1b2'' ''done'' (Some ''CHANGE_ME_DEVICE_KEY_LOCK1'') 7
          \<lparr>commands = [''lock1'' \<mapsto>
            \<lparr>action = ''unlock'', request_id = ''a1b2'', expires_at = 10, created_at = 0\<rparr>],
            events = []\<rparr>))
       = (Inr (AckResponse False (Some ''request_id mismatch'')),
          \<lparr>commands = [''lock1'' \<mapsto> none_command],
           events = [Ack 7 ''lock1'' ''a1b2'' ''done'',
                     AckMismatch 8 ''lock1'' ''a1b2'' [] ''failed'']\<rparr>)"
proof -
  have k: "DEVICE_KEYS ''lock1'' = Some ''CHANGE_ME_DEVICE_KEY_LOCK1''"
    by (simp add: DEVICE_KEYS_def)
  have r: "request_id (slot \<lparr>commands = [''lock1'' \<mapsto>
        \<lparr>action = ''unlock'', request_id = ''a1b2'', expires_at = 10, created_at = 0\<rparr>],
        events = []\<rparr> ''lock1'') = ''a1b2''"
    by (simp add: slot_def)
  have ne: "''a1b2'' \<noteq> []" by simp
  note th = ack_match_then_mismatch [OF k r, of "''done''" 7 "''failed''" 8]
  from th [THEN conjunct1]
  have a: "api_ack ''lock1'' ''a1b2'' ''done'' (Some ''CHANGE_ME_DEVICE_KEY_LOCK1'') 7
        \<lparr>commands = [''lock1'' \<mapsto>
          \<lparr>action = ''unlock'', request_id = ''a1b2'', expires_at = 10, created_at = 0\<rparr>],
          events = []\<rparr>
       = (Inr (AckResponse True None),
          \<lparr>commands = [''lock1'' \<mapsto> none_command],
           events = [Ack 7 ''lock1'' ''a1b2'' ''done'']\<rparr>)"
    by simp
  from th [THEN conjunct2]
  have b: "api_ack ''lock1'' ''a1b2'' ''failed'' (Some ''CHANGE_ME_DEVICE_KEY_LOCK1'') 8
        (snd (api_ack ''lock1'' ''a1b2'' ''done'' (Some ''CHANGE_ME_DEVICE_KEY_LOCK1'') 7
          \<lparr>commands = [''lock1'' \<mapsto>
            \<lparr>action = ''unlock'', request_id = ''a1b2'', expires_at = 10, created_at = 0\<rparr>],
            events = []\<rparr>))
       = (Inr (AckResponse False (Some ''request_id mismatch'')),
          \<lparr>commands = [''lock1'' \<mapsto> none_command],
           events = [Ack 7 ''lock1'' ''a1b2'' ''done'',
                     AckMismatch 8 ''lock1'' ''a1b2'' [] ''failed'']\<rparr>)"
    by simp
  from k r ne a b show ?thesis by (intro conjI)
qed

text \<open>
  The second acknowledge is accepted again when the \<open>request_id\<close> is the empty string:
  on the initial state, where nothing is pending, two acknowledges of \<open>""\<close> in a row
  both return \<open>ok = True\<close>.
\<close>

theorem ack_twice_empty_counterexample:
  "request_id (slot init ''lock1'') = []
   \<and> fst (api_ack ''lock1'' [] ''done'' (Some ''CHANGE_ME_DEVICE_KEY_LOCK1'') 1 init)
       = Inr (AckResponse True None)
   \<and> fst (api_ack ''lock1'' [] ''done'' (Some ''CHANGE_ME_DEVICE_KEY_LOCK1'') 2
        (snd (api_ack ''lock1'' [] ''done'' (Some ''CHANGE_ME_DEVICE_KEY_LOCK1'') 1 init)))
       = Inr (AckResponse True None)"
proof -
  have k: "DEVICE_KEYS ''lock1'' = Some ''CHANGE_ME_DEVICE_KEY_LOCK1''"
    by (simp add: DEVICE_KEYS_def)
  have r: "request_id (slot init ''lock1'') = []"
    by (simp add: slot_def init_def none_command_def)
  have a: "api_ack ''lock1'' [] ''done'' (Some ''CHANGE_ME_DEVICE_KEY_LOCK1'') 1 init =
      (Inr (AckResponse True None),
       init\<lparr>commands := (commands init)(''lock1'' \<mapsto> none_command),
            events := events init @ [Ack 1 ''lock1'' [] ''done'']\<rparr>)"
    by (rule api_ack_match [OF k r])
  have r': "request_id (slot (snd (api_ack ''lock1'' [] ''done''
      (Some ''CHANGE_ME_DEVICE_KEY_LOCK1'') 1 init)) ''lock1'') = []"
    by (simp add: a slot_def none_command_def)
  have b: "fst (api_ack ''lock1'' [] ''done'' (Some ''CHANGE_ME_DEVICE_KEY_LOCK1'') 2
        (snd (api_ack ''lock1'' [] ''done'' (Some ''CHANGE_ME_DEVICE_KEY_LOCK1'') 1 init)))
       = Inr (AckResponse True None)"
    by (simp add: api_ack_match [OF k r'])
  have a': "fst (api_ack ''lock1'' [] ''done'' (Some ''CHANGE_ME_DEVICE_KEY_LOCK1'') 1 init)
       = Inr (AckResponse True None)"
    by (simp add: a)
  from r a' b show ?thesis by (intro conjI)
qed

text \<open>
  C2. An acknowledge by a known device with its own key whose \<open>request_id\<close> differs from
  the stored one returns \<open>ok = False\<close>, appends exactly one \<open>ack_mismatch\<close> event that
  holds the submitted \<open>request_id\<close>, the stored one and the submitted status, and leaves
  every device's slot as it was: the only write to \<open>commands\<close> is the one of
  \<open>ensure_device\<close>, which stores the NONE command for a device that had nothing stored
  yet, and with a command stored the whole dictionary is unchanged.
\<close>

theorem ack_mismatch_frame:
  assumes "DEVICE_KEYS d = Some key" and "request_id (slot s d) \<noteq> rid"
  shows "fst (api_ack d rid st (Some key) t s)
           = Inr (AckResponse False (Some ''request_id mismatch''))
         \<and> events (snd (api_ack d rid st (Some key) t s))
           = events s @ [AckMismatch t d rid (request_id (slot s d)) st]
         \<and> slot (snd (api_ack d rid st (Some key) t s)) d' = slot s d'
         \<and> commands (snd (api_ack d rid st (Some key) t s)) = (commands s)(d \<mapsto> slot s d)
         \<and> (commands s d \<noteq> None \<longrightarrow>
              commands (snd (api_ack d rid st (Some key) t s)) = commands s)"
proof -
  have "(commands s)(d \<mapsto> slot s d) = commands s" if "commands s d \<noteq> None"
    using that by (auto simp: slot_def fun_upd_idem)
  then show ?thesis
    by (simp add: api_ack_mismatch [OF assms] slot_refresh)
qed

theorem ack_mismatch_frame_witness:
  "DEVICE_KEYS ''lock1'' = Some ''CHANGE_ME_DEVICE_KEY_LOCK1''
   \<and> request_id (slot \<lparr>commands = [''lock1'' \<mapsto>
        \<lparr>action = ''unlock'', request_id = ''a1b2'', expires_at = 10, created_at = 0\<rparr>],
        events = []\<rparr> ''lock1'') \<noteq> ''ffff''
   \<and> fst (api_ack ''lock1'' ''ffff'' ''done'' (Some ''CHANGE_ME_DEVICE_KEY_LOCK1'') 7
        \<lparr>commands = [''lock1'' \<mapsto>
          \<lparr>action = ''unlock'', request_id = ''a1b2'', expires_at = 10, created_at = 0\<rparr>],
          events = []\<rparr>) = Inr (AckResponse False (Some ''request_id mismatch''))
   \<and> events (snd (api_ack ''lock1'' ''ffff'' ''done'' (Some ''CHANGE_ME_DEVICE_KEY_LOCK1'') 7
        \<lparr>commands = [''lock1'' \<mapsto>
          \<lparr>action = ''unlock'', request_id = ''a1b2'', expires_at = 10, created_at = 0\<rparr>],
          events = []\<rparr>)) = [AckMismatch 7 ''lock1'' ''ffff'' ''a1b2'' ''done'']
   \<and> commands (snd (api_ack ''lock1'' ''ffff'' ''done'' (Some ''CHANGE_ME_DEVICE_KEY_LOCK1'') 7
        \<lparr>commands = [''lock1'' \<mapsto>
          \<lparr>action = ''unlock'', request_id = ''a1b2'', expires_at = 10, created_at = 0\<rparr>],
          events = []\<rparr>))
       = [''lock1'' \<mapsto>
          \<lparr>action = ''unlock'', request_id = ''a1b2'', expires_at = 10, created_at = 0\<rparr>]"
proof -
  have k: "DEVICE_KEYS ''lock1'' = Some ''CHANGE_ME_DEVICE_KEY_LOCK1''"
    by (simp add: DEVICE_KEYS_def)
  have r: "request_id (slot \<lparr>commands = [''lock1'' \<mapsto>
        \<lparr>action = ''unlock'', request_id = ''a1b2'', expires_at = 10, created_at = 0\<rparr>],
        events = []\<rparr> ''lock1'') \<noteq> ''ffff''"
    by (simp add: slot_def)
  note th = ack_mismatch_frame [OF k r, of "''done''" 7 "''lock1''"]
  from th have a: "fst (api_ack ''lock1'' ''ffff'' ''done'' (Some ''CHANGE_ME_DEVICE_KEY_LOCK1'') 7
        \<lparr>commands = [''lock1'' \<mapsto>
          \<lparr>action = ''unlock'', request_id = ''a1b2'', expires_at = 10, created_at = 0\<rparr>],
          events = []\<rparr>) = Inr (AckResponse False (Some ''request_id mismatch''))"
    by (rule conjunct1)
  from th have b: "events (snd (api_ack ''lock1'' ''ffff'' ''done''
        (Some ''CHANGE_ME_DEVICE_KEY_LOCK1'') 7
        \<lparr>commands = [''lock1'' \<mapsto>
          \<lparr>action = ''unlock'', request_id = ''a1b2'', expires_at = 10, created_at = 0\<rparr>],
          events = []\<rparr>)) = [AckMismatch 7 ''lock1'' ''ffff'' ''a1b2'' ''done'']"
    by (simp add: slot_def)
  from th have c: "commands (snd (api_ack ''lock1'' ''ffff'' ''done''
        (Some ''CHANGE_ME_DEVICE_KEY_LOCK1'') 7
        \<lparr>commands = [''lock1'' \<mapsto>
          \<lparr>action = ''unlock'', request_id = ''a1b2'', expires_at = 10, created_at = 0\<rparr>],
          events = []\<rparr>))
       = [''lock1'' \<mapsto>
          \<lparr>action = ''unlock'', request_id = ''a1b2'', expires_at = 10, created_at = 0\<rparr>]"
    by (simp add: slot_def)
  from k r a b c show ?thesis by (intro conjI)
qed

section \<open>Polling and lazy expiry\<close>

text \<open>
  C3. For a known device with a pending command stored (its \<open>action\<close> is not \<open>"none"\<close>):
  a poll whose clock reading is greater than \<open>expires_at\<close> stores the NONE command, appends
  exactly one \<open>command_expired\<close> event and returns \<open>{"action": "none"}\<close>; any number of
  polls after that leave the state as it is, each returning the NONE command; and a poll
  whose clock reading is at most \<open>expires_at\<close> returns the stored command and changes
  nothing. More generally a poll of a slot whose \<open>action\<close> is \<open>"none"\<close> returns that slot
  and appends no event.
\<close>

theorem poll_expiry:
  assumes "DEVICE_KEYS d = Some key" and "commands s d = Some c" and "action c \<noteq> ''none''"
  shows "(expires_at c < t \<longrightarrow>
            api_command d t t' s =
              (Inr (ActionOnly ''none''),
               s\<lparr>commands := (commands s)(d \<mapsto> none_command),
                 events := events s @ [CommandExpired t' d]\<rparr>)
            \<and> run (snd (api_command d t t' s)) (map (\<lambda>(a, b). Command d a b) ps)
                = snd (api_command d t t' s)
            \<and> api_command d u u' (snd (api_command d t t' s))
                = (Inr (Stored none_command), snd (api_command d t t' s)))
         \<and> (t \<le> expires_at c \<longrightarrow> api_command d t t' s = (Inr (Stored c), s))
         \<and> (action (slot s2 d) = ''none'' \<longrightarrow>
              fst (api_command d u u' s2) = Inr (Stored (slot s2 d))
              \<and> events (snd (api_command d u u' s2)) = events s2
              \<and> slot (snd (api_command d u u' s2)) d = slot s2 d)"
proof (intro conjI impI)
  have sl: "slot s d = c" using assms(2) by (simp add: slot_def)
  have same: "s\<lparr>commands := (commands s)(d \<mapsto> slot s d)\<rparr> = s"
    by (rule stored_refresh [OF assms(2)])
  { assume late: "expires_at c < t"
    show first: "api_command d t t' s =
        (Inr (ActionOnly ''none''),
         s\<lparr>commands := (commands s)(d \<mapsto> none_command),
           events := events s @ [CommandExpired t' d]\<rparr>)"
      using api_command_expired [OF assms(1), of s t t'] assms(3) late by (simp add: sl)
    have stored: "commands (snd (api_command d t t' s)) d = Some none_command"
      by (simp add: first)
    have idle: "api_command d a b (snd (api_command d t t' s))
        = (Inr (Stored none_command), snd (api_command d t t' s))" for a b
    proof -
      have n: "slot (snd (api_command d t t' s)) d = none_command"
        using stored by (simp add: slot_def)
      have "action (slot (snd (api_command d t t' s)) d) = ''none''
          \<or> a \<le> expires_at (slot (snd (api_command d t t' s)) d)"
        by (simp add: n none_command_def)
      from api_command_kept [OF assms(1) this, of b] show ?thesis
        by (simp only: n [symmetric] stored_refresh [OF stored])
    qed
    show "api_command d u u' (snd (api_command d t t' s))
        = (Inr (Stored none_command), snd (api_command d t t' s))"
      by (rule idle)
    show "run (snd (api_command d t t' s)) (map (\<lambda>(a, b). Command d a b) ps)
        = snd (api_command d t t' s)"
      by (induction ps) (simp_all add: run_Nil run_Cons idle split: prod.split)
  }
  { assume "t \<le> expires_at c"
    then have "action (slot s d) = ''none'' \<or> t \<le> expires_at (slot s d)"
      by (simp add: sl)
    from api_command_kept [OF assms(1) this, of t'] same
    show "api_command d t t' s = (Inr (Stored c), s)"
      by (simp add: sl)
  }
  { assume "action (slot s2 d) = ''none''"
    then have k: "api_command d u u' s2 =
        (Inr (Stored (slot s2 d)), s2\<lparr>commands := (commands s2)(d \<mapsto> slot s2 d)\<rparr>)"
      by (intro api_command_kept [OF assms(1)] disjI1)
    show "fst (api_command d u u' s2) = Inr (Stored (slot s2 d))"
      by (simp add: k)
    show "events (snd (api_command d u u' s2)) = events s2"
      by (simp add: k)
    show "slot (snd (api_command d u u' s2)) d = slot s2 d"
      by (simp add: k slot_def)
  }
qed

theorem poll_expiry_witness:
  "DEVICE_KEYS ''lock1'' = Some ''CHANGE_ME_DEVICE_KEY_LOCK1''
   \<and> commands \<lparr>commands = [''lock1'' \<mapsto>
        \<lparr>action = ''unlock'', request_id = ''a1b2'', expires_at = 5, created_at = 0\<rparr>],
        events = []\<rparr> ''lock1''
       = Some \<lparr>action = ''unlock'', request_id = ''a1b2'', expires_at = 5, created_at = 0\<rparr>
   \<and> ''unlock'' \<noteq> ''none''
   \<and> (5::int) < 6
   \<and> api_command ''lock1'' 6 6 \<lparr>commands = [''lock1'' \<mapsto>
        \<lparr>action = ''unlock'', request_id = ''a1b2'', expires_at = 5, created_at = 0\<rparr>],
        events = []\<rparr>
       = (Inr (ActionOnly ''none''),
          \<lparr>commands = [''lock1'' \<mapsto> none_command],
           events = [CommandExpired 6 ''lock1'']\<rparr>)
   \<and> api_command ''lock1'' 7 7 (snd (api_command ''lock1'' 6 6 \<lparr>commands = [''lock1'' \<mapsto>
        \<lparr>action = ''unlock'', request_id = ''a1b2'', expires_at = 5, created_at = 0\<rparr>],
        events = []\<rparr>))
       = (Inr (Stored none_command),
          snd (api_command ''lock1'' 6 6 \<lparr>commands = [''lock1'' \<mapsto>
            \<lparr>action = ''unlock'', request_id = ''a1b2'', expires_at = 5, created_at = 0\<rparr>],
            events = []\<rparr>))
   \<and> (2::int) \<le> 5
   \<and> api_command ''lock1'' 2 2 \<lparr>commands = [''lock1'' \<mapsto>
        \<lparr>action = ''unlock'', request_id = ''a1b2'', expires_at = 5, created_at = 0\<rparr>],
        events = []\<rparr>
       = (Inr (Stored
            \<lparr>action = ''unlock'', request_id = ''a1b2'', expires_at = 5, created_at = 0\<rparr>),
          \<lparr>commands = [''lock1'' \<mapsto>
            \<lparr>action = ''unlock'', request_id = ''a1b2'', expires_at = 5, created_at = 0\<rparr>],
           events = []\<rparr>)"
proof -
  have k: "DEVICE_KEYS ''lock1'' = Some ''CHANGE_ME_DEVICE_KEY_LOCK1''"
    by (simp add: DEVICE_KEYS_def)
  have c: "commands \<lparr>commands = [''lock1'' \<mapsto>
        \<lparr>action = ''unlock'', request_id = ''a1b2'', expires_at = 5, created_at = 0\<rparr>],
        events = []\<rparr> ''lock1''
       = Some \<lparr>action = ''unlock'', request_id = ''a1b2'', expires_at = 5, created_at = 0\<rparr>"
    by simp
  have a: "action \<lparr>action = ''unlock'', request_id = ''a1b2'', expires_at = 5, created_at = 0\<rparr>
       \<noteq> ''none''"
    by simp
  have a': "''unlock'' \<noteq> ''none''" by simp
  have late: "(5::int) < 6" and early: "(2::int) \<le> 5" by simp_all
  note th6 = poll_expiry [OF k c a, of 6 6 "[]" 7 7 init]
  note th2 = poll_expiry [OF k c a, of 2 2 "[]" 7 7 init]
  have late': "expires_at
      \<lparr>action = ''unlock'', request_id = ''a1b2'', expires_at = 5, created_at = 0\<rparr> < (6::int)"
    by simp
  note e = th6 [THEN conjunct1, THEN mp, OF late']
  from e [THEN conjunct1]
  have p1: "api_command ''lock1'' 6 6 \<lparr>commands = [''lock1'' \<mapsto>
        \<lparr>action = ''unlock'', request_id = ''a1b2'', expires_at = 5, created_at = 0\<rparr>],
        events = []\<rparr>
       = (Inr (ActionOnly ''none''),
          \<lparr>commands = [''lock1'' \<mapsto> none_command],
           events = [CommandExpired 6 ''lock1'']\<rparr>)"
    by simp
  have p2: "api_command ''lock1'' 7 7 (snd (api_command ''lock1'' 6 6
        \<lparr>commands = [''lock1'' \<mapsto>
          \<lparr>action = ''unlock'', request_id = ''a1b2'', expires_at = 5, created_at = 0\<rparr>],
          events = []\<rparr>))
       = (Inr (Stored none_command),
          snd (api_command ''lock1'' 6 6 \<lparr>commands = [''lock1'' \<mapsto>
            \<lparr>action = ''unlock'', request_id = ''a1b2'', expires_at = 5, created_at = 0\<rparr>],
            events = []\<rparr>))"
    by (rule e [THEN conjunct2, THEN conjunct2])
  from th2 [THEN conjunct2, THEN conjunct1]
  have p3: "api_command ''lock1'' 2 2 \<lparr>commands = [''lock1'' \<mapsto>
        \<lparr>action = ''unlock'', request_id = ''a1b2'', expires_at = 5, created_at = 0\<rparr>],
        events = []\<rparr>
       = (Inr (Stored
            \<lparr>action = ''unlock'', request_id = ''a1b2'', expires_at = 5, created_at = 0\<rparr>),
          \<lparr>commands = [''lock1'' \<mapsto>
            \<lparr>action = ''unlock'', request_id = ''a1b2'', expires_at = 5, created_at = 0\<rparr>],
           events = []\<rparr>)"
    by simp
  from k c a' late p1 p2 early p3 show ?thesis by (intro conjI)
qed

section \<open>Issuing a command\<close>

text \<open>
  C4. Every issue call that succeeds returns an \<open>expires_at\<close> between \<open>now + 3\<close> and
  \<open>now + 60\<close>, \<open>now\<close> being the clock reading the expiry is computed from, whatever
  \<open>ttl_seconds\<close> is (negative, zero, above 60 or absent); the same \<open>expires_at\<close> is stored in
  the device's slot, and it is \<open>now\<close> plus \<open>ttl_seconds or 10\<close> clamped to \<open>[3, 60]\<close>.
\<close>

theorem issue_ttl_clamped:
  assumes "api_unlock d ttl k rnd t1 t2 t3 s = (Inr r, s')"
  shows "t1 + 3 \<le> r_expires_at r \<and> r_expires_at r \<le> t1 + 60
         \<and> expires_at (slot s' d) = r_expires_at r
         \<and> r_expires_at r = t1 + max 3 (min (ttl_or ttl 10) 60)"
proof -
  have key: "k = Some ADMIN_API_KEY"
    using assms by (auto simp: api_unlock_def split: if_splits)
  obtain dk where dk: "DEVICE_KEYS d = Some dk"
    using assms key by (cases "DEVICE_KEYS d") (auto simp: api_unlock_unknown)
  from assms have r: "r = \<lparr>r_ok = True, r_device_id = d, r_action = ''unlock'',
      r_request_id = token_hex rnd, r_expires_at = t1 + max 3 (min (ttl_or ttl 10) 60)\<rparr>"
    and s': "commands s' d = Some \<lparr>action = ''unlock'', request_id = token_hex rnd,
      expires_at = t1 + max 3 (min (ttl_or ttl 10) 60), created_at = t2\<rparr>"
    unfolding key api_unlock_known [OF dk] by auto
  from s' have "expires_at (slot s' d) = t1 + max 3 (min (ttl_or ttl 10) 60)"
    by (simp add: slot_def)
  with r show ?thesis by simp
qed

theorem issue_ttl_clamped_witness:
  "api_unlock ''lock1'' (Some (- 5)) (Some ''CHANGE_ME_ADMIN_KEY_12345'') 1 100 100 100 init
     = (Inr \<lparr>r_ok = True, r_device_id = ''lock1'', r_action = ''unlock'',
             r_request_id = token_hex 1, r_expires_at = 103\<rparr>,
        \<lparr>commands = [''lock1'' \<mapsto> \<lparr>action = ''unlock'', request_id = token_hex 1,
                                    expires_at = 103, created_at = 100\<rparr>],
         events = [UnlockIssued 100 ''lock1'' (token_hex 1)]\<rparr>)
   \<and> (100::int) + 3 \<le> 103 \<and> (103::int) \<le> 100 + 60
   \<and> api_unlock ''lock1'' (Some 1000) (Some ''CHANGE_ME_ADMIN_KEY_12345'') 1 100 100 100 init
     = (Inr \<lparr>r_ok = True, r_device_id = ''lock1'', r_action = ''unlock'',
             r_request_id = token_hex 1, r_expires_at = 160\<rparr>,
        \<lparr>commands = [''lock1'' \<mapsto> \<lparr>action = ''unlock'', request_id = token_hex 1,
                                    expires_at = 160, created_at = 100\<rparr>],
         events = [UnlockIssued 100 ''lock1'' (token_hex 1)]\<rparr>)
   \<and> (100::int) + 3 \<le> 160 \<and> (160::int) \<le> 100 + 60"
proof -
  have k: "DEVICE_KEYS ''lock1'' = Some ''CHANGE_ME_DEVICE_KEY_LOCK1''"
    by (simp add: DEVICE_KEYS_def)
  have lo: "api_unlock ''lock1'' (Some (- 5)) (Some ''CHANGE_ME_ADMIN_KEY_12345'') 1 100 100 100 init
     = (Inr \<lparr>r_ok = True, r_device_id = ''lock1'', r_action = ''unlock'',
             r_request_id = token_hex 1, r_expires_at = 103\<rparr>,
        \<lparr>commands = [''lock1'' \<mapsto> \<lparr>action = ''unlock'', request_id = token_hex 1,
                                    expires_at = 103, created_at = 100\<rparr>],
         events = [UnlockIssued 100 ''lock1'' (token_hex 1)]\<rparr>)"
    using api_unlock_known [OF k, of "Some (- 5)" 1 100 100 100 init]
    by (simp add: ADMIN_API_KEY_def init_def ttl_or_def)
  have hi: "api_unlock ''lock1'' (Some 1000) (Some ''CHANGE_ME_ADMIN_KEY_12345'') 1 100 100 100 init
     = (Inr \<lparr>r_ok = True, r_device_id = ''lock1'', r_action = ''unlock'',
             r_request_id = token_hex 1, r_expires_at = 160\<rparr>,
        \<lparr>commands = [''lock1'' \<mapsto> \<lparr>action = ''unlock'', request_id = token_hex 1,
                                    expires_at = 160, created_at = 100\<rparr>],
         events = [UnlockIssued 100 ''lock1'' (token_hex 1)]\<rparr>)"
    using api_unlock_known [OF k, of "Some 1000" 1 100 100 100 init]
    by (simp add: ADMIN_API_KEY_def init_def ttl_or_def)
  from issue_ttl_clamped [OF lo]
  have b1: "(100::int) + 3 \<le> 103" and b2: "(103::int) \<le> 100 + 60" by simp_all
  from issue_ttl_clamped [OF hi]
  have b3: "(100::int) + 3 \<le> 160" and b4: "(160::int) \<le> 100 + 60" by simp_all
  from lo b1 b2 hi b3 b4 show ?thesis by (intro conjI)
qed

section \<open>Unknown devices\<close>

text \<open>
  C5. A poll or an acknowledge that names a device id outside \<open>DEVICE_KEYS\<close> raises the 404
  "Unknown device_id" whatever key it carries, and an issue does so when it carries the
  admin key; an issue with any other key raises the 401 "Invalid admin API key", the admin
  key being checked before the device id. In all four cases \<open>commands\<close> and \<open>events\<close> are
  left as they were.
\<close>

theorem unknown_device:
  assumes "DEVICE_KEYS d = None"
  shows "api_command d t1 t2 s = (Inl (HTTPException 404 ''Unknown device_id''), s)
         \<and> api_ack d rid st dk t1 s = (Inl (HTTPException 404 ''Unknown device_id''), s)
         \<and> api_unlock d ttl (Some ADMIN_API_KEY) rnd t1 t2 t3 s
             = (Inl (HTTPException 404 ''Unknown device_id''), s)
         \<and> (k \<noteq> Some ADMIN_API_KEY \<longrightarrow>
              api_unlock d ttl k rnd t1 t2 t3 s
                = (Inl (HTTPException 401 ''Invalid admin API key''), s))"
  using assms
  by (simp add: api_command_unknown api_ack_unknown api_unlock_unknown api_unlock_unauthorized)

theorem unknown_device_witness:
  "DEVICE_KEYS ''lock2'' = None
   \<and> api_command ''lock2'' 5 5 init = (Inl (HTTPException 404 ''Unknown device_id''), init)
   \<and> api_ack ''lock2'' ''a1b2'' ''done'' (Some ''CHANGE_ME_DEVICE_KEY_LOCK1'') 5 init
       = (Inl (HTTPException 404 ''Unknown device_id''), init)
   \<and> api_unlock ''lock2'' (Some 10) (Some ADMIN_API_KEY) 1 5 5 5 init
       = (Inl (HTTPException 404 ''Unknown device_id''), init)
   \<and> None \<noteq> Some ADMIN_API_KEY
   \<and> api_unlock ''lock2'' (Some 10) None 1 5 5 5 init
       = (Inl (HTTPException 401 ''Invalid admin API key''), init)"
proof -
  have u: "DEVICE_KEYS ''lock2'' = None" by (simp add: DEVICE_KEYS_def)
  have n: "None \<noteq> Some ADMIN_API_KEY" by simp
  note th = unknown_device [OF u, of 5 5 init "''a1b2''" "''done''"
      "Some ''CHANGE_ME_DEVICE_KEY_LOCK1''" "Some 10" 1 5 None]
  from th n have "api_unlock ''lock2'' (Some 10) None 1 5 5 5 init
       = (Inl (HTTPException 401 ''Invalid admin API key''), init)"
    by blast
  with th u n show ?thesis by blast
qed

text \<open>
  An issue for an unknown device with a wrong admin key does not raise the 404: the admin
  key is checked first and the call raises the 401.
\<close>

theorem issue_unknown_device_counterexample:
  "DEVICE_KEYS ''lock2'' = None
   \<and> fst (api_unlock ''lock2'' (Some 10) (Some ''wrong'') 1 5 5 5 init)
       = Inl (HTTPException 401 ''Invalid admin API key'')
   \<and> fst (api_unlock ''lock2'' (Some 10) (Some ''wrong'') 1 5 5 5 init)
       \<noteq> Inl (HTTPException 404 ''Unknown device_id'')"
  by (simp add: DEVICE_KEYS_def api_unlock_def ADMIN_API_KEY_def)

section \<open>The event log\<close>

text \<open>
  C6. The event log is bounded on the issue path only. \<open>api_unlock\<close> trims the log
  (more than 200 events: the first 50 are deleted, see \<open>api_unlock_bounded\<close>), while
  \<open>api_ack\<close> and \<open>api_command\<close> append and never trim. From the initial state, 201
  acknowledges of a stale \<open>request_id\<close> by the device \<open>lock1\<close> with its own key leave
  201 events in the log, more than the 200 that \<open>api_unlock\<close> keeps it under;
  \<open>acks_append\<close> gives the same for every number of acknowledges.
\<close>

theorem ack_log_exceeds_bound:
  "length (events (run init
      (replicate 201 (AckReq ''lock1'' ''stale'' ''done''
         (Some ''CHANGE_ME_DEVICE_KEY_LOCK1'') 0)))) = 201"
proof -
  have k: "DEVICE_KEYS ''lock1'' = Some ''CHANGE_ME_DEVICE_KEY_LOCK1''"
    by (simp add: DEVICE_KEYS_def)
  show ?thesis
    by (simp add: acks_append [OF k] init_def)
qed

text \<open>
  C9. With the admin key, \<open>api_events\<close> returns \<open>events[-100:]\<close> in every state of the log:
  a suffix of the log (the most recent events, in the order they were appended), of
  length \<open>min 100 (len events)\<close>, hence at most 100.
\<close>

theorem events_tail:
  "api_events (Some ADMIN_API_KEY) s = Inr (drop (length (events s) - 100) (events s))
   \<and> length (drop (length (events s) - 100) (events s)) = min 100 (length (events s))
   \<and> length (drop (length (events s) - 100) (events s)) \<le> 100
   \<and> suffix (drop (length (events s) - 100) (events s)) (events s)"
proof (intro conjI)
  show "api_events (Some ADMIN_API_KEY) s = Inr (drop (length (events s) - 100) (events s))"
    by (simp add: api_events_def slice_last_def)
  show "length (drop (length (events s) - 100) (events s)) = min 100 (length (events s))"
    by simp
  show "length (drop (length (events s) - 100) (events s)) \<le> 100"
    by simp
  show "suffix (drop (length (events s) - 100) (events s)) (events s)"
    by (rule suffix_drop)
qed

section \<open>Reissuing and the invariant of the store\<close>

text \<open>
  C7. Issuing for a device that already holds a pending command overwrites the slot. When
  a first issue returns the id R1 and a second issue, made while R1 is pending, returns
  an id R2 different from R1, the slot holds R2; an acknowledge of R1 then returns
  \<open>ok = False\<close> and leaves the slot as it is, and an acknowledge of R2 after that returns
  \<open>ok = True\<close> and resets the slot to the NONE command.
\<close>

theorem reissue_overwrites:
  fixes s :: state and d ttl1 r1 a1 a2 a3 ttl2 r2 b1 b2 b3 st key t
  defines "s1 \<equiv> snd (api_unlock d ttl1 (Some ADMIN_API_KEY) r1 a1 a2 a3 s)"
  defines "s2 \<equiv> snd (api_unlock d ttl2 (Some ADMIN_API_KEY) r2 b1 b2 b3 s1)"
  defines "s3 \<equiv> snd (api_ack d (token_hex r1) st (Some key) t s2)"
  assumes "DEVICE_KEYS d = Some key" and "token_hex r1 \<noteq> token_hex r2"
  shows "fst (api_unlock d ttl1 (Some ADMIN_API_KEY) r1 a1 a2 a3 s) =
           Inr \<lparr>r_ok = True, r_device_id = d, r_action = ''unlock'',
                r_request_id = token_hex r1,
                r_expires_at = a1 + max 3 (min (ttl_or ttl1 10) 60)\<rparr>
         \<and> slot s1 d = \<lparr>action = ''unlock'', request_id = token_hex r1,
                expires_at = a1 + max 3 (min (ttl_or ttl1 10) 60), created_at = a2\<rparr>
         \<and> fst (api_unlock d ttl2 (Some ADMIN_API_KEY) r2 b1 b2 b3 s1) =
           Inr \<lparr>r_ok = True, r_device_id = d, r_action = ''unlock'',
                r_request_id = token_hex r2,
                r_expires_at = b1 + max 3 (min (ttl_or ttl2 10) 60)\<rparr>
         \<and> slot s2 d = \<lparr>action = ''unlock'', request_id = token_hex r2,
                expires_at = b1 + max 3 (min (ttl_or ttl2 10) 60), created_at = b2\<rparr>
         \<and> fst (api_ack d (token_hex r1) st (Some key) t s2)
             = Inr (AckResponse False (Some ''request_id mismatch''))
         \<and> slot s3 d = slot s2 d
         \<and> fst (api_ack d (token_hex r2) st' (Some key) t' s3) = Inr (AckResponse True None)
         \<and> slot (snd (api_ack d (token_hex r2) st' (Some key) t' s3)) d = none_command"
proof -
  note k = assms(4)
  have u1: "fst (api_unlock d ttl1 (Some ADMIN_API_KEY) r1 a1 a2 a3 s) =
      Inr \<lparr>r_ok = True, r_device_id = d, r_action = ''unlock'', r_request_id = token_hex r1,
           r_expires_at = a1 + max 3 (min (ttl_or ttl1 10) 60)\<rparr>"
    by (simp add: api_unlock_known [OF k])
  have p1: "slot s1 d = \<lparr>action = ''unlock'', request_id = token_hex r1,
      expires_at = a1 + max 3 (min (ttl_or ttl1 10) 60), created_at = a2\<rparr>"
    unfolding s1_def by (simp add: api_unlock_known [OF k] slot_def)
  have u2: "fst (api_unlock d ttl2 (Some ADMIN_API_KEY) r2 b1 b2 b3 s1) =
      Inr \<lparr>r_ok = True, r_device_id = d, r_action = ''unlock'', r_request_id = token_hex r2,
           r_expires_at = b1 + max 3 (min (ttl_or ttl2 10) 60)\<rparr>"
    by (simp add: api_unlock_known [OF k])
  have p2: "slot s2 d = \<lparr>action = ''unlock'', request_id = token_hex r2,
      expires_at = b1 + max 3 (min (ttl_or ttl2 10) 60), created_at = b2\<rparr>"
    unfolding s2_def by (simp add: api_unlock_known [OF k] slot_def)
  have ne: "request_id (slot s2 d) \<noteq> token_hex r1"
    using assms(5) by (simp add: p2)
  have m: "api_ack d (token_hex r1) st (Some key) t s2 =
      (Inr (AckResponse False (Some ''request_id mismatch'')),
       s2\<lparr>commands := (commands s2)(d \<mapsto> slot s2 d),
          events := events s2 @
            [AckMismatch t d (token_hex r1) (request_id (slot s2 d)) st]\<rparr>)"
    by (rule api_ack_mismatch [OF k ne])
  have a1: "fst (api_ack d (token_hex r1) st (Some key) t s2)
      = Inr (AckResponse False (Some ''request_id mismatch''))"
    by (simp add: m)
  have p3: "slot s3 d = slot s2 d"
    unfolding s3_def by (simp add: m slot_def)
  have eq: "request_id (slot s3 d) = token_hex r2"
    by (simp add: p3 p2)
  have ok: "api_ack d (token_hex r2) st' (Some key) t' s3 =
      (Inr (AckResponse True None),
       s3\<lparr>commands := (commands s3)(d \<mapsto> none_command),
          events := events s3 @ [Ack t' d (token_hex r2) st']\<rparr>)"
    by (rule api_ack_match [OF k eq])
  have a2: "fst (api_ack d (token_hex r2) st' (Some key) t' s3) = Inr (AckResponse True None)"
    by (simp add: ok)
  have p4: "slot (snd (api_ack d (token_hex r2) st' (Some key) t' s3)) d = none_command"
    by (simp add: ok slot_def)
  from u1 p1 u2 p2 a1 p3 a2 p4 show ?thesis by (intro conjI)
qed

theorem reissue_overwrites_witness:
  "DEVICE_KEYS ''lock1'' = Some ''CHANGE_ME_DEVICE_KEY_LOCK1''
   \<and> token_hex 1 \<noteq> token_hex 2
   \<and> fst (api_ack ''lock1'' (token_hex 1) ''done'' (Some ''CHANGE_ME_DEVICE_KEY_LOCK1'') 2
        (snd (api_unlock ''lock1'' (Some 10) (Some ADMIN_API_KEY) 2 1 1 1
          (snd (api_unlock ''lock1'' (Some 10) (Some ADMIN_API_KEY) 1 0 0 0 init)))))
       = Inr (AckResponse False (Some ''request_id mismatch''))
   \<and> fst (api_ack ''lock1'' (token_hex 2) ''done'' (Some ''CHANGE_ME_DEVICE_KEY_LOCK1'') 3
        (snd (api_ack ''lock1'' (token_hex 1) ''done'' (Some ''CHANGE_ME_DEVICE_KEY_LOCK1'') 2
          (snd (api_unlock ''lock1'' (Some 10) (Some ADMIN_API_KEY) 2 1 1 1
            (snd (api_unlock ''lock1'' (Some 10) (Some ADMIN_API_KEY) 1 0 0 0 init)))))))
       = Inr (AckResponse True None)
   \<and> slot (snd (api_ack ''lock1'' (token_hex 2) ''done''
        (Some ''CHANGE_ME_DEVICE_KEY_LOCK1'') 3
        (snd (api_ack ''lock1'' (token_hex 1) ''done'' (Some ''CHANGE_ME_DEVICE_KEY_LOCK1'') 2
          (snd (api_unlock ''lock1'' (Some 10) (Some ADMIN_API_KEY) 2 1 1 1
            (snd (api_unlock ''lock1'' (Some 10) (Some ADMIN_API_KEY) 1 0 0 0 init)))))))) ''lock1''
       = none_command"
proof -
  have k: "DEVICE_KEYS ''lock1'' = Some ''CHANGE_ME_DEVICE_KEY_LOCK1''"
    by (simp add: DEVICE_KEYS_def)
  have ne: "token_hex 1 \<noteq> token_hex 2"
    by (simp add: token_hex_def hexdigit_def upt_rec)
  note th = reissue_overwrites [OF k ne, where s = init and ?ttl1.0 = "Some 10"
      and ?a1.0 = 0 and ?a2.0 = 0 and ?a3.0 = 0 and ?ttl2.0 = "Some 10"
      and ?b1.0 = 1 and ?b2.0 = 1 and ?b3.0 = 1
      and st = "''done''" and t = 2 and st' = "''done''" and t' = 3]
  from th k ne show ?thesis by blast
qed

text \<open>
  When both issues draw the same eight random bytes the two ids are equal, and the
  acknowledge of the first id is accepted: on the initial state, two issues for \<open>lock1\<close>
  that both draw the bytes of the word 1 return the same \<open>request_id\<close>, and the acknowledge
  of it after the second issue returns \<open>ok = True\<close>.
\<close>

theorem reissue_same_id_counterexample:
  "fst (api_unlock ''lock1'' (Some 10) (Some ADMIN_API_KEY) 1 0 0 0 init) =
     Inr \<lparr>r_ok = True, r_device_id = ''lock1'', r_action = ''unlock'',
          r_request_id = token_hex 1, r_expires_at = 10\<rparr>
   \<and> fst (api_unlock ''lock1'' (Some 10) (Some ADMIN_API_KEY) 1 1 1 1
        (snd (api_unlock ''lock1'' (Some 10) (Some ADMIN_API_KEY) 1 0 0 0 init))) =
     Inr \<lparr>r_ok = True, r_device_id = ''lock1'', r_action = ''unlock'',
          r_request_id = token_hex 1, r_expires_at = 11\<rparr>
   \<and> fst (api_ack ''lock1'' (token_hex 1) ''done'' (Some ''CHANGE_ME_DEVICE_KEY_LOCK1'') 2
        (snd (api_unlock ''lock1'' (Some 10) (Some ADMIN_API_KEY) 1 1 1 1
          (snd (api_unlock ''lock1'' (Some 10) (Some ADMIN_API_KEY) 1 0 0 0 init)))))
       = Inr (AckResponse True None)"
proof -
  have k: "DEVICE_KEYS ''lock1'' = Some ''CHANGE_ME_DEVICE_KEY_LOCK1''"
    by (simp add: DEVICE_KEYS_def)
  have u1: "fst (api_unlock ''lock1'' (Some 10) (Some ADMIN_API_KEY) 1 0 0 0 init) =
     Inr \<lparr>r_ok = True, r_device_id = ''lock1'', r_action = ''unlock'',
          r_request_id = token_hex 1, r_expires_at = 10\<rparr>"
    by (simp add: api_unlock_known [OF k] ttl_or_def)
  have u2: "fst (api_unlock ''lock1'' (Some 10) (Some ADMIN_API_KEY) 1 1 1 1
        (snd (api_unlock ''lock1'' (Some 10) (Some ADMIN_API_KEY) 1 0 0 0 init))) =
     Inr \<lparr>r_ok = True, r_device_id = ''lock1'', r_action = ''unlock'',
          r_request_id = token_hex 1, r_expires_at = 11\<rparr>"
    by (simp add: api_unlock_known [OF k] ttl_or_def)
  have r: "request_id (slot
        (snd (api_unlock ''lock1'' (Some 10) (Some ADMIN_API_KEY) 1 1 1 1
          (snd (api_unlock ''lock1'' (Some 10) (Some ADMIN_API_KEY) 1 0 0 0 init))))
        ''lock1'') = token_hex 1"
    by (simp add: api_unlock_known [OF k] slot_def)
  have a: "fst (api_ack ''lock1'' (token_hex 1) ''done'' (Some ''CHANGE_ME_DEVICE_KEY_LOCK1'') 2
        (snd (api_unlock ''lock1'' (Some 10) (Some ADMIN_API_KEY) 1 1 1 1
          (snd (api_unlock ''lock1'' (Some 10) (Some ADMIN_API_KEY) 1 0 0 0 init)))))
       = Inr (AckResponse True None)"
    by (simp add: api_ack_match [OF k r])
  from u1 u2 a show ?thesis by (intro conjI)
qed

text \<open>
  C8. A stored command has a non-empty \<open>request_id\<close> exactly when its \<open>action\<close> is not
  \<open>"none"\<close>: this holds in the initial state, each of issue, poll and acknowledge keeps it,
  and so it holds for every stored command, and for every slot as read, after any
  sequence of requests from the initial state.
\<close>

theorem request_id_iff_pending:
  "store_inv init
   \<and> (store_inv s \<longrightarrow>
        store_inv (snd (api_unlock d ttl k rnd t1 t2 t3 s))
        \<and> store_inv (snd (api_command d t1 t2 s))
        \<and> store_inv (snd (api_ack d rid st dk t1 s)))
   \<and> store_inv (run init rs)
   \<and> (commands (run init rs) d = Some c \<longrightarrow> (request_id c \<noteq> []) = (action c \<noteq> ''none''))
   \<and> (request_id (slot (run init rs) d) \<noteq> []) = (action (slot (run init rs) d) \<noteq> ''none'')"
proof (intro conjI impI)
  show "store_inv init" by (rule store_inv_init)
  show r: "store_inv (run init rs)" by (rule store_inv_run [OF store_inv_init])
  show c: "(request_id c \<noteq> []) = (action c \<noteq> ''none'')"
    if "commands (run init rs) d = Some c" for c
    using r that by (auto simp: store_inv_def slot_inv_def)
  show "(request_id (slot (run init rs) d) \<noteq> []) = (action (slot (run init rs) d) \<noteq> ''none'')"
  proof (cases "commands (run init rs) d")
    case None
    then show ?thesis by (simp add: slot_def none_command_def)
  next
    case (Some c')
    with c [OF Some] show ?thesis by (simp add: slot_def)
  qed
next
  assume "store_inv s"
  then show "store_inv (snd (api_unlock d ttl k rnd t1 t2 t3 s))"
    and "store_inv (snd (api_command d t1 t2 s))"
    and "store_inv (snd (api_ack d rid st dk t1 s))"
    by (rule store_inv_api_unlock store_inv_api_command store_inv_api_ack)+
qed

theorem request_id_iff_pending_witness:
  "store_inv init
   \<and> store_inv (snd (api_unlock ''lock1'' (Some 10) (Some ADMIN_API_KEY) 1 0 0 0 init))
   \<and> commands (run init [Unlock ''lock1'' (Some 10) (Some ADMIN_API_KEY) 1 0 0 0]) ''lock1''
       = Some \<lparr>action = ''unlock'', request_id = token_hex 1, expires_at = 10, created_at = 0\<rparr>
   \<and> (request_id
         \<lparr>action = ''unlock'', request_id = token_hex 1, expires_at = 10, created_at = 0\<rparr>
         \<noteq> [])
       = (action
         \<lparr>action = ''unlock'', request_id = token_hex 1, expires_at = 10, created_at = 0\<rparr>
         \<noteq> ''none'')"
proof -
  have k: "DEVICE_KEYS ''lock1'' = Some ''CHANGE_ME_DEVICE_KEY_LOCK1''"
    by (simp add: DEVICE_KEYS_def)
  have c: "commands (run init [Unlock ''lock1'' (Some 10) (Some ADMIN_API_KEY) 1 0 0 0]) ''lock1''
       = Some \<lparr>action = ''unlock'', request_id = token_hex 1, expires_at = 10, created_at = 0\<rparr>"
    by (simp add: run_Cons run_Nil api_unlock_known [OF k] ttl_or_def)
  note th = request_id_iff_pending [of init "''lock1''" "Some 10" "Some ADMIN_API_KEY" 1 0 0 0
      "[]" "''done''" None "[Unlock ''lock1'' (Some 10) (Some ADMIN_API_KEY) 1 0 0 0]"
      "\<lparr>action = ''unlock'', request_id = token_hex 1, expires_at = 10, created_at = 0\<rparr>"]
  from th c show ?thesis by blast
qed

text \<open>
  C10. For a known device with its own key whose slot holds no pending command (the stored
  \<open>request_id\<close> is the empty string, or nothing is stored yet), an acknowledge of the empty
  \<open>request_id\<close> is a match: it returns \<open>ok = True\<close>, stores the NONE command and appends
  an \<open>ack\<close> event.
\<close>

theorem ack_empty_accepted:
  assumes "DEVICE_KEYS d = Some key" and "request_id (slot s d) = []"
  shows "api_ack d [] st (Some key) t s =
           (Inr (AckResponse True None),
            s\<lparr>commands := (commands s)(d \<mapsto> none_command),
              events := events s @ [Ack t d [] st]\<rparr>)"
  by (rule api_ack_match [OF assms])

theorem ack_empty_accepted_witness:
  "DEVICE_KEYS ''lock1'' = Some ''CHANGE_ME_DEVICE_KEY_LOCK1''
   \<and> request_id (slot init ''lock1'') = []
   \<and> api_ack ''lock1'' [] ''done'' (Some ''CHANGE_ME_DEVICE_KEY_LOCK1'') 4 init =
       (Inr (AckResponse True None),
        \<lparr>commands = [''lock1'' \<mapsto> none_command], events = [Ack 4 ''lock1'' [] ''done'']\<rparr>)"
proof -
  have k: "DEVICE_KEYS ''lock1'' = Some ''CHANGE_ME_DEVICE_KEY_LOCK1''"
    by (simp add: DEVICE_KEYS_def)
  have r: "request_id (slot init ''lock1'') = []"
    by (simp add: slot_def init_def none_command_def)
  from ack_empty_accepted [OF k r, of "''done''" 4]
  have a: "api_ack ''lock1'' [] ''done'' (Some ''CHANGE_ME_DEVICE_KEY_LOCK1'') 4 init =
       (Inr (AckResponse True None),
        \<lparr>commands = [''lock1'' \<mapsto> none_command], events = [Ack 4 ''lock1'' [] ''done'']\<rparr>)"
    by (simp add: init_def)
  from k r a show ?thesis by (intro conjI)
qed


end
